theory Spec2Isabelle
  imports Complex_Main "HOL-Library.AList"
begin

section \<open>Python primitives\<close>

text \<open>
  The sustainability package works on Python floats and unbounded ints. Floats are
  modelled as \<^typ>\<open>real\<close> (exact arithmetic: no rounding, no overflow, no NaN), ints as
  \<^typ>\<open>int\<close>. Every exception of the source is a value of \<open>py_error\<close>:
  \<open>ZeroDivisionError\<close> for a float division by zero, \<open>RuntimeError\<close> for a failed query
  of the simulator's vehicle actor, \<open>OSError\<close> for a failed write, flush or close of a
  file, \<open>ValueError\<close> for an operation on a closed file and \<open>KeyError\<close> for a
  dictionary lookup of an absent key.
\<close>

datatype py_error = ZeroDivisionError | RuntimeError | OSError | ValueError | KeyError

text \<open>\<open>a / b\<close> on floats raises when the divisor is zero.\<close>

definition py_truediv :: "real \<Rightarrow> real \<Rightarrow> py_error + real" where
  "py_truediv a b = (if b = 0 then Inl ZeroDivisionError else Inr (a / b))"

text \<open>\<open>int(q)\<close> on a float drops the fractional part: it truncates toward zero.\<close>

definition py_int :: "real \<Rightarrow> int" where
  "py_int q = (if 0 \<le> q then \<lfloor>q\<rfloor> else \<lceil>q\<rceil>)"

text \<open>\<open>round(v, n)\<close>: the nearest multiple of \<open>10 ^ -n\<close>, ties to the even one.\<close>

definition py_round :: "real \<Rightarrow> nat \<Rightarrow> real" where
  "py_round v n =
     (let s = v * 10 ^ n; f = \<lfloor>s\<rfloor>; d = s - of_int f
      in of_int (if d < 1 / 2 then f else if 1 / 2 < d then f + 1
                 else if even f then f else f + 1) / 10 ^ n)"

text \<open>\<open>np.std(xs)\<close> is \<open>sqrt(mean(abs(xs - mean(xs)) ** 2))\<close>.\<close>

definition np_mean :: "real list \<Rightarrow> real" where
  "np_mean xs = sum_list xs / real (length xs)"

definition np_std :: "real list \<Rightarrow> real" where
  "np_std xs = sqrt (np_mean (map (\<lambda>v. \<bar>v - np_mean xs\<bar> ^ 2) xs))"

section \<open>utils.py\<close>

definition G :: real where
  "G = 9.81"

definition RHO_AIR :: real where
  "RHO_AIR = 1.225"

definition aerodynamic_force :: "real \<Rightarrow> real \<Rightarrow> real \<Rightarrow> real" where
  "aerodynamic_force c a speed = 0.5 * RHO_AIR * c * a * speed ^ 2"

definition rolling_resistance_force :: "real \<Rightarrow> real \<Rightarrow> real" where
  "rolling_resistance_force c m = c * m * G"

definition gravity_force_on_slope :: "real \<Rightarrow> real \<Rightarrow> real" where
  "gravity_force_on_slope m slope = m * G * slope"

section \<open>The simulator's objects\<close>

text \<open>
  The vehicle actor, the world snapshot and the control command belong to the simulator.
  A vehicle is modelled by what its queries return at the current tick; a query that
  raises returns \<open>Inl\<close>. The simulator changes these readings between ticks.
\<close>

record vector3d =
  vec_x :: real
  vec_y :: real
  vec_z :: real

record vehicle =
  actor_id :: int
  get_physics_control :: "py_error + real"
  get_velocity :: "py_error + vector3d"
  get_acceleration :: "py_error + vector3d"
  get_location :: "py_error + vector3d"

record snapshot =
  delta_seconds :: real
  elapsed_seconds :: real

text \<open>A control command; \<open>getattr(control, 'throttle', 0)\<close> reads an attribute that may be absent.\<close>

record control =
  throttle :: "real option"

section \<open>The per-vehicle CSV file\<close>

datatype csv_row = Header "string list" | Data "real list"

text \<open>
  The file object: the rows written so far, whether it has been closed, and whether the
  device currently fails (then a write, a flush and the flush inside \<open>close\<close> raise).
  Closing releases the file even when that last flush raises, and closing twice is allowed.
\<close>

record csv_sink =
  rows :: "csv_row list"
  closed :: bool
  faulty :: bool

definition writerow :: "csv_sink \<Rightarrow> csv_row \<Rightarrow> py_error + csv_sink" where
  "writerow f r =
     (if closed f then Inl ValueError
      else if faulty f then Inl OSError
      else Inr (f\<lparr>rows := rows f @ [r]\<rparr>))"

definition flush :: "csv_sink \<Rightarrow> py_error + csv_sink" where
  "flush f =
     (if closed f then Inl ValueError
      else if faulty f then Inl OSError
      else Inr f)"

definition file_close :: "csv_sink \<Rightarrow> py_error option \<times> csv_sink" where
  "file_close f =
     (if closed f then (None, f)
      else if faulty f then (Some OSError, f\<lparr>closed := True\<rparr>)
      else (None, f\<lparr>closed := True\<rparr>))"

section \<open>metrics.py: SustainabilityMetrics\<close>

record veh_params =
  p_mass :: "real option"
  p_cd :: "real option"
  p_area :: "real option"
  p_crr :: "real option"
  p_drivetrain_eff :: "real option"
  p_is_ev :: "bool option"

record sustainability_metrics =
  vehicle :: vehicle
  vid :: int
  mass :: real
  cd :: real
  area :: real
  crr :: real
  drivetrain_eff :: real
  is_ev :: bool
  energy_j :: real
  regen_j :: real
  co2_g :: real
  distance_m :: real
  harsh_accel :: int
  harsh_brake :: int
  idle_time_s :: real
  jerk_samples :: "real list"
  last_accel :: real
  last_speed :: real
  sample_hz :: real
  accum_dt :: real
  csv_file :: csv_sink

definition csv_header :: "string list" where
  "csv_header =
     [''timestamp'', ''x'', ''y'', ''speed_m_s'', ''long_accel_m_s2'', ''jerk'', ''power_w'',
      ''dt_s'', ''cumulative_energy_j'', ''cumulative_co2_g'', ''regen_j'', ''eco_score'']"

text \<open>
  \<open>__init__\<close>. \<open>vehicle_id or vehicle.id\<close> takes the actor's id when the argument is
  absent or zero. The freshly opened file holds the header row.
\<close>

definition init_metrics ::
  "vehicle \<Rightarrow> int option \<Rightarrow> veh_params option \<Rightarrow> string \<Rightarrow> real \<Rightarrow> sustainability_metrics" where
  "init_metrics v vehicle_id params model_type hz =
     (let ps = (case params of
                  None \<Rightarrow> \<lparr>p_mass = None, p_cd = None, p_area = None, p_crr = None,
                            p_drivetrain_eff = None, p_is_ev = None\<rparr>
                | Some q \<Rightarrow> q);
          mass0 = (case get_physics_control v of
                     Inr pm \<Rightarrow> pm
                   | Inl e \<Rightarrow> (case p_mass ps of Some pm \<Rightarrow> pm | None \<Rightarrow> 1500));
          ev0 = (case p_is_ev ps of Some b \<Rightarrow> b | None \<Rightarrow> False)
      in \<lparr>vehicle = v,
          vid = (case vehicle_id of None \<Rightarrow> actor_id v
                 | Some k \<Rightarrow> if k = 0 then actor_id v else k),
          mass = (case p_mass ps of Some pm \<Rightarrow> pm | None \<Rightarrow> mass0),
          cd = (case p_cd ps of Some c \<Rightarrow> c | None \<Rightarrow> 0.30),
          area = (case p_area ps of Some a \<Rightarrow> a | None \<Rightarrow> 2.2),
          crr = (case p_crr ps of Some c \<Rightarrow> c | None \<Rightarrow> 0.01),
          drivetrain_eff = (case p_drivetrain_eff ps of Some c \<Rightarrow> c | None \<Rightarrow> 0.90),
          is_ev = (if model_type = ''ev'' then True
                   else if model_type = ''ice'' then False else ev0),
          energy_j = 0, regen_j = 0, co2_g = 0, distance_m = 0,
          harsh_accel = 0, harsh_brake = 0, idle_time_s = 0,
          jerk_samples = [], last_accel = 0, last_speed = 0,
          sample_hz = hz, accum_dt = 0,
          csv_file = \<lparr>rows = [Header csv_header], closed = False, faulty = False\<rparr>\<rparr>)"

text \<open>\<open>close\<close>: the bare \<open>except\<close> swallows whatever closing the file raises.\<close>

definition close :: "sustainability_metrics \<Rightarrow> sustainability_metrics" where
  "close m = m\<lparr>csv_file := snd (file_close (csv_file m))\<rparr>"

subsection \<open>Power and emissions\<close>

definition compute_power ::
  "sustainability_metrics \<Rightarrow> real \<Rightarrow> real \<Rightarrow> real \<Rightarrow> py_error + real" where
  "compute_power m speed accel slope =
     (let F_aero = aerodynamic_force (cd m) (area m) speed;
          F_roll = rolling_resistance_force (crr m) (mass m);
          F_grav = gravity_force_on_slope (mass m) slope;
          F_inertial = mass m * accel;
          F_total = F_aero + F_roll + F_grav + F_inertial;
          P = F_total * speed
      in if 0 \<le> P then py_truediv P (max (drivetrain_eff m) (1 / 1000000))
         else Inr (P * drivetrain_eff m))"

definition estimate_fuel_co2 :: "real \<Rightarrow> real \<Rightarrow> real" where
  "estimate_fuel_co2 power_w dt_s =
     (if power_w \<le> 0 then 0
      else let E_kwh = (power_w * dt_s) / 3600000; liters = E_kwh / 8.9
           in liters * 2310)"

definition estimate_ev_co2 :: "real \<Rightarrow> real \<Rightarrow> real \<Rightarrow> real" where
  "estimate_ev_co2 power_w dt_s grid_g_per_kwh =
     (let E_kwh = (power_w * dt_s) / 3600000 in E_kwh * grid_g_per_kwh)"

subsection \<open>Eco score\<close>

definition compute_eco_score :: "sustainability_metrics \<Rightarrow> real" where
  "compute_eco_score m =
     (let dist_km = max (distance_m m / 1000) 0.1;
          jerk_std = (if jerk_samples m \<noteq> [] then np_std (jerk_samples m) else 0);
          penalty = (jerk_std * 1.2 + of_int (harsh_accel m) * 0.08
                     + of_int (harsh_brake m) * 0.12 + idle_time_s m * 0.01) / dist_km
      in max 0 (100 - penalty))"

subsection \<open>The main update\<close>

text \<open>
  The scalar speed and the longitudinal acceleration of a tick, as \<open>update\<close> computes
  them from the velocity and acceleration vectors.
\<close>

definition speed_of :: "vector3d \<Rightarrow> real" where
  "speed_of vel = sqrt ((vec_x vel) ^ 2 + (vec_y vel) ^ 2 + (vec_z vel) ^ 2)"

definition long_accel :: "vector3d \<Rightarrow> vector3d \<Rightarrow> real" where
  "long_accel vel acc =
     (if 0.1 < speed_of vel
      then (vec_x vel * vec_x acc + vec_y vel * vec_y acc + vec_z vel * vec_z acc) / speed_of vel
      else 0)"

text \<open>Power, energy and CO2: the branch on the sign of the power.\<close>

definition integrate_power :: "sustainability_metrics \<Rightarrow> real \<Rightarrow> real \<Rightarrow> sustainability_metrics" where
  "integrate_power m power_w dt =
     (if 0 < power_w
      then (let m1 = m\<lparr>energy_j := energy_j m + power_w * dt\<rparr>
            in if is_ev m1
               then m1\<lparr>co2_g := co2_g m1 + estimate_ev_co2 power_w dt 400\<rparr>
               else m1\<lparr>co2_g := co2_g m1 + estimate_fuel_co2 power_w dt\<rparr>)
      else m\<lparr>regen_j := regen_j m + \<bar>power_w\<bar> * dt * 0.5\<rparr>)"

text \<open>The eco-driving counters.\<close>

definition eco_counters ::
  "sustainability_metrics \<Rightarrow> real \<Rightarrow> real \<Rightarrow> control option \<Rightarrow> real \<Rightarrow> sustainability_metrics" where
  "eco_counters m speed accel ctl dt =
     (let m1 = (if 2.0 < accel then m\<lparr>harsh_accel := harsh_accel m + 1\<rparr> else m);
          m2 = (if accel < - 2.5 then m1\<lparr>harsh_brake := harsh_brake m1 + 1\<rparr> else m1)
      in if speed < 0.3 \<and>
            (case ctl of None \<Rightarrow> True
             | Some c \<Rightarrow> (case throttle c of None \<Rightarrow> 0 | Some t \<Rightarrow> t) < 0.1)
         then m2\<lparr>idle_time_s := idle_time_s m2 + dt\<rparr> else m2)"

text \<open>
  The sampled CSV logging. The time since the last row is accumulated first; when the
  row is due and reading the location, writing or flushing raises, the exception leaves
  the tracker with everything assigned before it.
\<close>

definition csv_logging ::
  "sustainability_metrics \<Rightarrow> snapshot \<Rightarrow> real \<Rightarrow> real \<Rightarrow> real \<Rightarrow> real \<Rightarrow> real
     \<Rightarrow> py_error option \<times> sustainability_metrics" where
  "csv_logging m snap speed accel jerk power_w dt =
     (let m1 = m\<lparr>accum_dt := accum_dt m + dt\<rparr>
      in if 1 / max 1 (sample_hz m1) \<le> accum_dt m1
         then (let eco_score = compute_eco_score m1
               in case get_location (vehicle m1) of
                    Inl e \<Rightarrow> (Some e, m1)
                  | Inr loc \<Rightarrow>
                      (case writerow (csv_file m1)
                              (Data [elapsed_seconds snap,
                                     py_round (vec_x loc) 3, py_round (vec_y loc) 3,
                                     py_round speed 3, py_round accel 3,
                                     py_round jerk 3,
                                     py_round power_w 3,
                                     py_round (accum_dt m1) 4,
                                     py_round (energy_j m1) 3,
                                     py_round (co2_g m1) 3,
                                     py_round (regen_j m1) 3,
                                     py_round eco_score 2]) of
                         Inl e \<Rightarrow> (Some e, m1)
                       | Inr f \<Rightarrow>
                           (case flush f of
                              Inl e \<Rightarrow> (Some e, m1\<lparr>csv_file := f\<rparr>)
                            | Inr f' \<Rightarrow> (None, m1\<lparr>csv_file := f', accum_dt := 0\<rparr>))))
         else (None, m1))"

text \<open>
  \<open>update\<close> returns the exception it raised, if any, and the tracker as the call left it:
  the object is mutated in place, so what was assigned before an exception stays.
\<close>

definition update ::
  "sustainability_metrics \<Rightarrow> snapshot \<Rightarrow> control option \<Rightarrow> real
     \<Rightarrow> py_error option \<times> sustainability_metrics" where
  "update m snap ctl slope =
     (let dt = delta_seconds snap
      in if dt \<le> 0 then (None, m)
         else case get_velocity (vehicle m) of
                Inl e \<Rightarrow> (Some e, m)
              | Inr vel \<Rightarrow>
                  (case get_acceleration (vehicle m) of
                     Inl e \<Rightarrow> (Some e, m)
                   | Inr acc \<Rightarrow>
                       (let speed = speed_of vel;
                            accel = long_accel vel acc;
                            m1 = m\<lparr>distance_m := distance_m m + speed * dt\<rparr>
                        in case compute_power m1 speed accel slope of
                             Inl e \<Rightarrow> (Some e, m1)
                           | Inr power_w \<Rightarrow>
                               (let m2 = integrate_power m1 power_w dt;
                                    jerk = (accel - last_accel m2) / dt;
                                    m3 = m2\<lparr>jerk_samples := jerk_samples m2 @ [jerk],
                                            last_accel := accel\<rparr>;
                                    m4 = eco_counters m3 speed accel ctl dt
                                in csv_logging m4 snap speed accel jerk power_w dt))))"

text \<open>\<open>results\<close>: the snapshot written to the summary.\<close>

record results =
  r_vehicle_id :: int
  r_energy_Wh :: real
  r_regen_Wh :: real
  r_co2_g :: real
  r_distance_m :: real
  r_harsh_accel :: int
  r_harsh_brake :: int
  r_idle_time_s :: real
  r_eco_score :: real

definition results :: "sustainability_metrics \<Rightarrow> results" where
  "results m =
     \<lparr>r_vehicle_id = vid m,
      r_energy_Wh = energy_j m / 3600,
      r_regen_Wh = regen_j m / 3600,
      r_co2_g = co2_g m,
      r_distance_m = distance_m m,
      r_harsh_accel = harsh_accel m,
      r_harsh_brake = harsh_brake m,
      r_idle_time_s = idle_time_s m,
      r_eco_score = compute_eco_score m\<rparr>"


section \<open>Dictionaries\<close>

text \<open>
  A Python dictionary keeps its keys in insertion order: it is an association list with
  distinct keys. Assigning to a present key replaces its value in place and assigning to
  an absent key appends the pair, which is what \<^const>\<open>AList.update\<close> does.
\<close>

definition setdefault :: "('k \<times> 'v) list \<Rightarrow> 'k \<Rightarrow> 'v \<Rightarrow> ('k \<times> 'v) list" where
  "setdefault d k v = (case map_of d k of None \<Rightarrow> d @ [(k, v)] | Some w \<Rightarrow> d)"

text \<open>\<open>d[k] += a\<close> reads \<open>d[k]\<close> first, which raises on an absent key.\<close>

definition dict_iadd :: "('k \<times> real) list \<Rightarrow> 'k \<Rightarrow> real \<Rightarrow> py_error + ('k \<times> real) list" where
  "dict_iadd d k a =
     (case map_of d k of
        None \<Rightarrow> Inl KeyError
      | Some w \<Rightarrow> Inr (AList.update k (w + a) d))"

section \<open>evaluator.py: SustainabilityEvaluator\<close>

record bounds =
  min_x :: real
  min_y :: real
  max_x :: real
  max_y :: real

type_synonym cell = "int \<times> int"

record evaluator =
  metrics :: "(int \<times> sustainability_metrics) list"
  grid :: "(cell \<times> real) list"
  map_bounds :: bounds
  cell_size :: real
  model_type :: string

text \<open>\<open>__init__\<close>, with the defaults of \<open>map_bounds\<close> and of \<open>config.get('model_type', 'auto')\<close>.\<close>

definition init_evaluator :: "bounds option \<Rightarrow> real \<Rightarrow> string option \<Rightarrow> evaluator" where
  "init_evaluator mb cell_size_m cfg =
     \<lparr>metrics = [], grid = [],
      map_bounds = (case mb of
                      None \<Rightarrow> \<lparr>min_x = - 1000, min_y = - 1000, max_x = 1000, max_y = 1000\<rparr>
                    | Some b \<Rightarrow> b),
      cell_size = cell_size_m,
      model_type = (case cfg of None \<Rightarrow> ''auto'' | Some t \<Rightarrow> t)\<rparr>"

definition register_vehicle :: "evaluator \<Rightarrow> vehicle \<Rightarrow> veh_params option \<Rightarrow> evaluator" where
  "register_vehicle ev v params =
     (if map_of (metrics ev) (actor_id v) \<noteq> None then ev
      else ev\<lparr>metrics :=
                AList.update (actor_id v)
                  (init_metrics v (Some (actor_id v)) params (model_type ev) 5)
                  (metrics ev)\<rparr>)"

text \<open>
  The body of the \<open>try\<close> in \<open>update\<close> for one tracker: the tracker's update, then the
  cell of the vehicle's location and the charge of the grid. It returns the exception
  that ended it, if any, the tracker and the grid as they are then.
\<close>

definition update_vehicle ::
  "evaluator \<Rightarrow> snapshot \<Rightarrow> sustainability_metrics \<Rightarrow> (cell \<times> real) list
     \<Rightarrow> py_error option \<times> sustainability_metrics \<times> (cell \<times> real) list" where
  "update_vehicle ev snap m g =
     (case update m snap None 0 of
        (Some e, m') \<Rightarrow> (Some e, m', g)
      | (None, m') \<Rightarrow>
          (case get_location (vehicle m') of
             Inl e \<Rightarrow> (Some e, m', g)
           | Inr loc \<Rightarrow>
               (case py_truediv (vec_x loc - min_x (map_bounds ev)) (cell_size ev) of
                  Inl e \<Rightarrow> (Some e, m', g)
                | Inr qi \<Rightarrow>
                    (case py_truediv (vec_y loc - min_y (map_bounds ev)) (cell_size ev) of
                       Inl e \<Rightarrow> (Some e, m', g)
                     | Inr qj \<Rightarrow>
                         (let i = py_int qi; j = py_int qj;
                              g1 = setdefault g (i, j) 0
                          in case dict_iadd g1 (i, j) (co2_g m') of
                               Inl e \<Rightarrow> (Some e, m', g1)
                             | Inr g2 \<Rightarrow> (None, m', g2))))))"

text \<open>
  The loop of \<open>update\<close> over the registered trackers. The \<open>except\<close> clause prints the
  exception with the vehicle id and the loop goes on; the printed pairs are returned.
\<close>

fun update_loop ::
  "evaluator \<Rightarrow> snapshot \<Rightarrow> (int \<times> sustainability_metrics) list \<Rightarrow> (cell \<times> real) list
     \<Rightarrow> (int \<times> sustainability_metrics) list \<times> (cell \<times> real) list \<times> (int \<times> py_error) list" where
  "update_loop ev snap [] g = ([], g, [])"
| "update_loop ev snap ((k, m) # rest) g =
     (case update_vehicle ev snap m g of
        (err, m', g') \<Rightarrow>
          (case update_loop ev snap rest g' of
             (rest', g'', printed) \<Rightarrow>
               ((k, m') # rest', g'',
                (case err of None \<Rightarrow> printed | Some e \<Rightarrow> (k, e) # printed))))"

definition evaluator_update :: "evaluator \<Rightarrow> snapshot \<Rightarrow> evaluator \<times> (int \<times> py_error) list" where
  "evaluator_update ev snap =
     (case update_loop ev snap (metrics ev) (grid ev) of
        (ms, g, printed) \<Rightarrow> (ev\<lparr>metrics := ms, grid := g\<rparr>, printed))"

text \<open>
  \<open>finalize\<close>. The first loop appends each tracker's results and closes the tracker; the
  second lists the grid. Opening the output file and dumping the summary may raise,
  which is the argument \<open>fault\<close>; nothing catches it.
\<close>

record summary =
  vehicles :: "results list"
  grid_cells :: "(int \<times> int \<times> real) list"

fun finalize_loop ::
  "(int \<times> sustainability_metrics) list \<Rightarrow> results list
     \<Rightarrow> (int \<times> sustainability_metrics) list \<times> results list" where
  "finalize_loop [] vs = ([], vs)"
| "finalize_loop ((k, m) # rest) vs =
     (case finalize_loop rest (vs @ [results m]) of
        (rest', vs') \<Rightarrow> ((k, close m) # rest', vs'))"

definition finalize :: "evaluator \<Rightarrow> py_error option \<Rightarrow> evaluator \<times> (py_error + summary)" where
  "finalize ev fault =
     (case finalize_loop (metrics ev) [] of
        (ms, vs) \<Rightarrow>
          (let s = \<lparr>vehicles = vs,
                    grid_cells = map (\<lambda>((i, j), co2). (i, j, co2)) (grid ev)\<rparr>
           in (ev\<lparr>metrics := ms\<rparr>,
               case fault of Some e \<Rightarrow> Inl e | None \<Rightarrow> Inr s)))"

section \<open>Runs\<close>

text \<open>
  A tracker over several ticks: before each tick the simulator has moved the vehicle, so
  a tick comes with the vehicle's new readings.
\<close>

fun run_updates ::
  "sustainability_metrics \<Rightarrow> (vehicle \<times> snapshot \<times> control option \<times> real) list
     \<Rightarrow> sustainability_metrics" where
  "run_updates m [] = m"
| "run_updates m ((v, snap, ctl, slope) # ticks) =
     run_updates (snd (update (m\<lparr>vehicle := v\<rparr>) snap ctl slope)) ticks"

text \<open>
  An evaluator over a simulation: vehicles are registered, the simulator changes the
  readings of a registered vehicle, and each tick calls \<open>update\<close>.
\<close>

datatype event = Register vehicle "veh_params option" | Sense int vehicle | Tick snapshot

fun step :: "evaluator \<Rightarrow> event \<Rightarrow> evaluator" where
  "step ev (Register v params) = register_vehicle ev v params"
| "step ev (Sense k v) =
     ev\<lparr>metrics := map (\<lambda>(k', m). if k' = k then (k', m\<lparr>vehicle := v\<rparr>) else (k', m))
                        (metrics ev)\<rparr>"
| "step ev (Tick snap) = fst (evaluator_update ev snap)"

fun run :: "evaluator \<Rightarrow> event list \<Rightarrow> evaluator" where
  "run ev [] = ev"
| "run ev (e # es) = run (step ev e) es"

section \<open>The properties, in the specification's words\<close>

text \<open>Every cumulative accumulator of the second tracker is at least that of the first.\<close>

definition accum_le :: "sustainability_metrics \<Rightarrow> sustainability_metrics \<Rightarrow> bool" where
  "accum_le m m' \<longleftrightarrow>
     energy_j m \<le> energy_j m' \<and> regen_j m \<le> regen_j m' \<and> co2_g m \<le> co2_g m' \<and>
     distance_m m \<le> distance_m m' \<and> harsh_accel m \<le> harsh_accel m' \<and>
     harsh_brake m \<le> harsh_brake m' \<and> idle_time_s m \<le> idle_time_s m'"

text \<open>The population standard deviation of a sample, 0 for the empty sample.\<close>

definition population_stddev :: "real list \<Rightarrow> real" where
  "population_stddev xs =
     (if xs = [] then 0
      else sqrt ((\<Sum>v\<leftarrow>xs. (v - sum_list xs / real (length xs)) ^ 2) / real (length xs)))"

text \<open>The eco score as the specification writes it.\<close>

definition spec_eco_score :: "real \<Rightarrow> real \<Rightarrow> real \<Rightarrow> real \<Rightarrow> real \<Rightarrow> real" where
  "spec_eco_score jerk_stddev n_accel n_brake idle_s distance_km =
     max 0 (100 - (1.2 * jerk_stddev + 0.08 * n_accel + 0.12 * n_brake + 0.01 * idle_s)
                   / max distance_km 0.1)"

text \<open>
  The cell that the per-vehicle body of \<open>update\<close> charges when nothing in it raises, and
  the cells charged along a run: at each tick, those of the registered trackers.
\<close>

definition charged_cell :: "evaluator \<Rightarrow> snapshot \<Rightarrow> sustainability_metrics \<Rightarrow> cell option" where
  "charged_cell ev snap m =
     (case update m snap None 0 of
        (Some e, m') \<Rightarrow> None
      | (None, m') \<Rightarrow>
          (case get_location (vehicle m') of
             Inl e \<Rightarrow> None
           | Inr loc \<Rightarrow>
               if cell_size ev = 0 then None
               else Some (py_int ((vec_x loc - min_x (map_bounds ev)) / cell_size ev),
                          py_int ((vec_y loc - min_y (map_bounds ev)) / cell_size ev))))"

fun charged_cells :: "evaluator \<Rightarrow> event list \<Rightarrow> cell list" where
  "charged_cells ev [] = []"
| "charged_cells ev (Tick snap # es) =
     List.map_filter (\<lambda>(k, m). charged_cell ev snap m) (metrics ev)
       @ charged_cells (step ev (Tick snap)) es"
| "charged_cells ev (e # es) = charged_cells (step ev e) es"

section \<open>Example inputs\<close>

text \<open>
  Four vehicles as the simulator may report them: one cruising at 20 m/s inside the map,
  one braking at 3 m/s squared, one whose velocity query raises, and one cruising south
  of the map's lower bound. The snapshots are a tick of one second and a tick with no
  elapsed time.
\<close>

definition cruising_vehicle :: vehicle where
  "cruising_vehicle =
     \<lparr>actor_id = 7, get_physics_control = Inr 1500,
      get_velocity = Inr \<lparr>vec_x = 20, vec_y = 0, vec_z = 0\<rparr>,
      get_acceleration = Inr \<lparr>vec_x = 0, vec_y = 0, vec_z = 0\<rparr>,
      get_location = Inr \<lparr>vec_x = 40, vec_y = 60, vec_z = 0\<rparr>\<rparr>"

definition braking_vehicle :: vehicle where
  "braking_vehicle =
     \<lparr>actor_id = 8, get_physics_control = Inl RuntimeError,
      get_velocity = Inr \<lparr>vec_x = 20, vec_y = 0, vec_z = 0\<rparr>,
      get_acceleration = Inr \<lparr>vec_x = - 3, vec_y = 0, vec_z = 0\<rparr>,
      get_location = Inr \<lparr>vec_x = - 120, vec_y = 310, vec_z = 0\<rparr>\<rparr>"

definition broken_vehicle :: vehicle where
  "broken_vehicle =
     \<lparr>actor_id = 9, get_physics_control = Inr 1200,
      get_velocity = Inl RuntimeError,
      get_acceleration = Inr \<lparr>vec_x = 0, vec_y = 0, vec_z = 0\<rparr>,
      get_location = Inr \<lparr>vec_x = 0, vec_y = 0, vec_z = 0\<rparr>\<rparr>"

definition outside_vehicle :: vehicle where
  "outside_vehicle =
     \<lparr>actor_id = 10, get_physics_control = Inr 1500,
      get_velocity = Inr \<lparr>vec_x = 20, vec_y = 0, vec_z = 0\<rparr>,
      get_acceleration = Inr \<lparr>vec_x = 0, vec_y = 0, vec_z = 0\<rparr>,
      get_location = Inr \<lparr>vec_x = 25, vec_y = - 1030, vec_z = 0\<rparr>\<rparr>"

definition demo_snapshot :: snapshot where
  "demo_snapshot = \<lparr>delta_seconds = 1, elapsed_seconds = 12\<rparr>"

definition stale_snapshot :: snapshot where
  "stale_snapshot = \<lparr>delta_seconds = 0, elapsed_seconds = 12\<rparr>"

definition demo_metrics :: "vehicle \<Rightarrow> sustainability_metrics" where
  "demo_metrics v = init_metrics v (Some (actor_id v)) None ''auto'' 5"

definition demo_evaluator :: evaluator where
  "demo_evaluator = init_evaluator None 50 None"

definition demo_fleet :: evaluator where
  "demo_fleet =
     run demo_evaluator
       [Register cruising_vehicle None, Register broken_vehicle None,
        Register braking_vehicle None]"

definition demo_events :: "event list" where
  "demo_events =
     [Register cruising_vehicle None, Register broken_vehicle None,
      Register outside_vehicle None, Tick demo_snapshot,
      Sense 7 braking_vehicle, Tick demo_snapshot]"

text \<open>
  A tracker with some history, and the example fleet with every file on a failing device.
\<close>

definition worn_metrics :: sustainability_metrics where
  "worn_metrics =
     (demo_metrics cruising_vehicle)
       \<lparr>jerk_samples := [1, 3], harsh_accel := 2, harsh_brake := 1, idle_time_s := 30,
        distance_m := 500\<rparr>"

definition faulty_fleet :: evaluator where
  "faulty_fleet =
     demo_fleet\<lparr>metrics :=
       map (\<lambda>(k, m). (k, m\<lparr>csv_file := (csv_file m)\<lparr>faulty := True\<rparr>\<rparr>)) (metrics demo_fleet)\<rparr>"

section \<open>Auxiliary facts\<close>

lemma compute_power_distance [simp]:
  "compute_power (m\<lparr>distance_m := d\<rparr>) speed accel slope = compute_power m speed accel slope"
  by (simp add: compute_power_def Let_def)

lemma csv_logging_fields [simp]:
  "energy_j (snd (csv_logging m snap s a j p dt)) = energy_j m"
  "regen_j (snd (csv_logging m snap s a j p dt)) = regen_j m"
  "co2_g (snd (csv_logging m snap s a j p dt)) = co2_g m"
  "distance_m (snd (csv_logging m snap s a j p dt)) = distance_m m"
  "harsh_accel (snd (csv_logging m snap s a j p dt)) = harsh_accel m"
  "harsh_brake (snd (csv_logging m snap s a j p dt)) = harsh_brake m"
  "idle_time_s (snd (csv_logging m snap s a j p dt)) = idle_time_s m"
  "jerk_samples (snd (csv_logging m snap s a j p dt)) = jerk_samples m"
  "last_accel (snd (csv_logging m snap s a j p dt)) = last_accel m"
  by (simp_all add: csv_logging_def Let_def split: sum.splits)

lemma eco_counters_fields [simp]:
  "energy_j (eco_counters m s a ctl dt) = energy_j m"
  "regen_j (eco_counters m s a ctl dt) = regen_j m"
  "co2_g (eco_counters m s a ctl dt) = co2_g m"
  "distance_m (eco_counters m s a ctl dt) = distance_m m"
  by (simp_all add: eco_counters_def Let_def)

lemma eco_counters_mono:
  "0 \<le> dt \<Longrightarrow> harsh_accel m \<le> harsh_accel (eco_counters m s a ctl dt)"
  "0 \<le> dt \<Longrightarrow> harsh_brake m \<le> harsh_brake (eco_counters m s a ctl dt)"
  "0 \<le> dt \<Longrightarrow> idle_time_s m \<le> idle_time_s (eco_counters m s a ctl dt)"
  by (simp_all add: eco_counters_def Let_def)

lemma integrate_power_fields [simp]:
  "distance_m (integrate_power m p dt) = distance_m m"
  "harsh_accel (integrate_power m p dt) = harsh_accel m"
  "harsh_brake (integrate_power m p dt) = harsh_brake m"
  "idle_time_s (integrate_power m p dt) = idle_time_s m"
  by (simp_all add: integrate_power_def Let_def)

lemma integrate_power_pos:
  assumes "0 < dt" "0 < p"
  shows "co2_g m < co2_g (integrate_power m p dt)"
    and "regen_j (integrate_power m p dt) = regen_j m"
    and "energy_j (integrate_power m p dt) = energy_j m + p * dt"
  using assms
  by (simp_all add: integrate_power_def Let_def estimate_ev_co2_def estimate_fuel_co2_def)

lemma integrate_power_nonpos:
  assumes "p \<le> 0"
  shows "co2_g (integrate_power m p dt) = co2_g m"
    and "energy_j (integrate_power m p dt) = energy_j m"
    and "regen_j (integrate_power m p dt) = regen_j m + 0.5 * \<bar>p\<bar> * dt"
  using assms by (simp_all add: integrate_power_def)

lemma speed_of_nonneg: "0 \<le> speed_of vel"
  by (simp add: speed_of_def)

lemma integrate_power_mono:
  assumes "0 < dt"
  shows "energy_j m \<le> energy_j (integrate_power m p dt)"
    and "regen_j m \<le> regen_j (integrate_power m p dt)"
    and "co2_g m \<le> co2_g (integrate_power m p dt)"
  using assms
  by (simp_all add: integrate_power_def Let_def estimate_ev_co2_def estimate_fuel_co2_def
        mult_le_0_iff)

lemma accum_le_refl: "accum_le m m"
  by (simp add: accum_le_def)

lemma accum_le_trans: "accum_le a b \<Longrightarrow> accum_le b c \<Longrightarrow> accum_le a c"
  by (auto simp: accum_le_def)

lemma accum_le_vehicle: "accum_le (m\<lparr>vehicle := v\<rparr>) m' = accum_le m m'"
  by (simp add: accum_le_def)

text \<open>
  The tracker that \<open>update\<close> leaves when the velocity, the acceleration and the power
  are computed: the logging step applied to the counters step. Whether the logging
  raises does not matter for the accumulators.
\<close>

lemma update_computed:
  assumes "0 < delta_seconds snap"
    and "get_velocity (vehicle m) = Inr vel"
    and "get_acceleration (vehicle m) = Inr acc"
    and "compute_power m (speed_of vel) (long_accel vel acc) slope = Inr p"
  shows "\<exists>m3 j. energy_j m3 = energy_j (integrate_power m p (delta_seconds snap))
           \<and> regen_j m3 = regen_j (integrate_power m p (delta_seconds snap))
           \<and> co2_g m3 = co2_g (integrate_power m p (delta_seconds snap))
           \<and> distance_m m3 = distance_m m + speed_of vel * delta_seconds snap
           \<and> harsh_accel m3 = harsh_accel m \<and> harsh_brake m3 = harsh_brake m
           \<and> idle_time_s m3 = idle_time_s m
           \<and> snd (update m snap ctl slope)
               = snd (csv_logging
                        (eco_counters m3 (speed_of vel) (long_accel vel acc) ctl (delta_seconds snap))
                        snap (speed_of vel) (long_accel vel acc) j p (delta_seconds snap))"
proof -
  let ?dt = "delta_seconds snap"
  let ?m2 = "integrate_power (m\<lparr>distance_m := distance_m m + speed_of vel * ?dt\<rparr>) p ?dt"
  let ?j = "(long_accel vel acc - last_accel ?m2) / ?dt"
  let ?m3 = "?m2\<lparr>jerk_samples := jerk_samples ?m2 @ [?j], last_accel := long_accel vel acc\<rparr>"
  have "snd (update m snap ctl slope)
          = snd (csv_logging (eco_counters ?m3 (speed_of vel) (long_accel vel acc) ctl ?dt)
                   snap (speed_of vel) (long_accel vel acc) ?j p ?dt)"
    using assms by (simp add: update_def Let_def)
  moreover have "energy_j ?m3 = energy_j (integrate_power m p ?dt)"
    "regen_j ?m3 = regen_j (integrate_power m p ?dt)"
    "co2_g ?m3 = co2_g (integrate_power m p ?dt)"
    by (simp_all add: integrate_power_def Let_def)
  moreover have "distance_m ?m3 = distance_m m + speed_of vel * ?dt"
    "harsh_accel ?m3 = harsh_accel m" "harsh_brake ?m3 = harsh_brake m"
    "idle_time_s ?m3 = idle_time_s m"
    by simp_all
  ultimately show ?thesis by blast
qed

lemma update_accum_le: "accum_le m (snd (update m snap ctl slope))"
proof (cases "delta_seconds snap \<le> 0")
  case True
  then show ?thesis by (simp add: update_def accum_le_refl)
next
  case False
  then have dt: "0 < delta_seconds snap" by simp
  let ?dt = "delta_seconds snap"
  show ?thesis
  proof (cases "get_velocity (vehicle m)")
    case (Inl e)
    with dt show ?thesis by (simp add: update_def accum_le_refl)
  next
    case vel: (Inr vel)
    have d: "distance_m m \<le> distance_m m + speed_of vel * ?dt"
      using dt speed_of_nonneg [of vel] by simp
    show ?thesis
    proof (cases "get_acceleration (vehicle m)")
      case (Inl e)
      with dt vel show ?thesis by (simp add: update_def accum_le_refl)
    next
      case acc: (Inr acc)
      show ?thesis
      proof (cases "compute_power m (speed_of vel) (long_accel vel acc) slope")
        case (Inl e)
        with dt vel acc d show ?thesis by (simp add: update_def Let_def accum_le_def)
      next
        case (Inr p)
        from update_computed [OF dt vel acc Inr, of ctl]
        obtain m3 j where m3:
          "energy_j m3 = energy_j (integrate_power m p ?dt)"
          "regen_j m3 = regen_j (integrate_power m p ?dt)"
          "co2_g m3 = co2_g (integrate_power m p ?dt)"
          "distance_m m3 = distance_m m + speed_of vel * ?dt"
          "harsh_accel m3 = harsh_accel m" "harsh_brake m3 = harsh_brake m"
          "idle_time_s m3 = idle_time_s m"
          and r: "snd (update m snap ctl slope)
                    = snd (csv_logging (eco_counters m3 (speed_of vel) (long_accel vel acc) ctl ?dt)
                             snap (speed_of vel) (long_accel vel acc) j p ?dt)"
          by blast
        have dt0: "0 \<le> ?dt" using dt by simp
        have "energy_j m \<le> energy_j (snd (update m snap ctl slope))"
          "regen_j m \<le> regen_j (snd (update m snap ctl slope))"
          "co2_g m \<le> co2_g (snd (update m snap ctl slope))"
          using integrate_power_mono [OF dt, of m p] by (simp_all add: r m3)
        moreover have "distance_m m \<le> distance_m (snd (update m snap ctl slope))"
          using d by (simp add: r m3)
        moreover have "harsh_accel m \<le> harsh_accel (snd (update m snap ctl slope))"
          using eco_counters_mono(1) [OF dt0, of m3] by (simp add: r m3)
        moreover have "harsh_brake m \<le> harsh_brake (snd (update m snap ctl slope))"
          using eco_counters_mono(2) [OF dt0, of m3] by (simp add: r m3)
        moreover have "idle_time_s m \<le> idle_time_s (snd (update m snap ctl slope))"
          using eco_counters_mono(3) [OF dt0, of m3] by (simp add: r m3)
        ultimately show ?thesis by (simp add: accum_le_def)
      qed
    qed
  qed
qed

lemma run_updates_append:
  "run_updates m (xs @ ys) = run_updates (run_updates m xs) ys"
  by (induction m xs rule: run_updates.induct) simp_all

lemma run_updates_accum_le: "accum_le m (run_updates m ticks)"
proof (induction m ticks rule: run_updates.induct)
  case (1 m)
  show ?case by (simp add: accum_le_refl)
next
  case (2 m v snap ctl slope ticks)
  have "accum_le m (snd (update (m\<lparr>vehicle := v\<rparr>) snap ctl slope))"
    using update_accum_le [of "m\<lparr>vehicle := v\<rparr>" snap ctl slope]
    by (simp add: accum_le_vehicle)
  with 2 show ?case by (auto intro: accum_le_trans)
qed

lemma np_std_population:
  "xs \<noteq> [] \<Longrightarrow> np_std xs = population_stddev xs"
  by (simp add: np_std_def np_mean_def population_stddev_def)

lemma np_std_nonneg: "0 \<le> np_std xs"
proof -
  have "0 \<le> sum_list (map (\<lambda>v. \<bar>v - np_mean xs\<bar> ^ 2) xs)"
    by (rule sum_list_nonneg) auto
  then show ?thesis
    by (simp add: np_std_def np_mean_def)
qed

lemma map_of_setdefault:
  "map_of (setdefault d k v) = (case map_of d k of None \<Rightarrow> (map_of d)(k \<mapsto> v) | Some w \<Rightarrow> map_of d)"
  by (auto simp: setdefault_def map_of_append fun_eq_iff map_add_def split: option.splits)

lemma keys_setdefault: "fst ` set (setdefault d k v) = insert k (fst ` set d)"
  by (auto simp: setdefault_def map_of_eq_None_iff split: option.splits dest: map_of_SomeD
      intro: rev_image_eqI)

lemma dict_iadd_setdefault:
  "dict_iadd (setdefault d k 0) k a =
     Inr (AList.update k ((case map_of d k of None \<Rightarrow> 0 | Some w \<Rightarrow> w) + a) (setdefault d k 0))"
  by (simp add: dict_iadd_def map_of_setdefault split: option.splits)

lemma keys_update: "fst ` set (AList.update k v d) = insert k (fst ` set d)"
  by (simp add: dom_update)









lemma closed_close: "closed (csv_file (close m))"
  by (simp add: close_def file_close_def)

lemma finalize_loop_closed:
  "list_all (\<lambda>(k, m). closed (csv_file m)) (fst (finalize_loop ms vs))"
  by (induction ms vs rule: finalize_loop.induct) (auto simp: closed_close split: prod.splits)

lemma finalize_loop_keys: "map fst (fst (finalize_loop ms vs)) = map fst ms"
  by (induction ms vs rule: finalize_loop.induct) (auto split: prod.splits)

lemma keys_update_vehicle:
  "fst ` set (snd (snd (update_vehicle ev snap m g)))
     = fst ` set g \<union> set_option (charged_cell ev snap m)"
proof (cases "update m snap None 0")
  case (Pair err m')
  show ?thesis
  proof (cases err)
    case (Some e)
    with Pair show ?thesis by (simp add: update_vehicle_def charged_cell_def)
  next
    case None
    show ?thesis
    proof (cases "get_location (vehicle m')")
      case (Inl e)
      with Pair None show ?thesis by (simp add: update_vehicle_def charged_cell_def)
    next
      case (Inr loc)
      show ?thesis
      proof (cases "cell_size ev = 0")
        case True
        with Pair None Inr show ?thesis
          by (simp add: update_vehicle_def charged_cell_def py_truediv_def)
      next
        case False
        with Pair None Inr show ?thesis
          by (simp add: update_vehicle_def charged_cell_def py_truediv_def Let_def
              dict_iadd_setdefault keys_update keys_setdefault)
      qed
    qed
  qed
qed

lemma keys_update_loop:
  "fst ` set (fst (snd (update_loop ev snap ms g)))
     = fst ` set g \<union> set (List.map_filter (\<lambda>(k, m). charged_cell ev snap m) ms)"
proof (induction ms arbitrary: g)
  case Nil
  show ?case by (simp add: List.map_filter_simps)
next
  case (Cons a ms)
  obtain k m where a: "a = (k, m)" by (cases a)
  obtain err m' g' where u: "update_vehicle ev snap m g = (err, m', g')"
    by (cases "update_vehicle ev snap m g")
  obtain ms' g'' pr where l: "update_loop ev snap ms g' = (ms', g'', pr)"
    by (cases "update_loop ev snap ms g'")
  have 1: "fst ` set g' = fst ` set g \<union> set_option (charged_cell ev snap m)"
    using keys_update_vehicle [of ev snap m g] u by simp
  have 2: "fst ` set g'' = fst ` set g'
             \<union> set (List.map_filter (\<lambda>(k, m). charged_cell ev snap m) ms)"
    using Cons [of g'] l by simp
  show ?case
    by (cases "charged_cell ev snap m") (auto simp: a u l 1 2 List.map_filter_simps)
qed

lemma distinct_setdefault:
  "distinct (map fst d) \<Longrightarrow> distinct (map fst (setdefault d k v))"
  by (auto simp: setdefault_def map_of_eq_None_iff split: option.splits)

lemma distinct_update_vehicle:
  "distinct (map fst g) \<Longrightarrow> distinct (map fst (snd (snd (update_vehicle ev snap m g))))"
  by (cases "update m snap None 0")
     (auto simp: update_vehicle_def Let_def dict_iadd_def distinct_setdefault distinct_update
       split: option.splits sum.splits)

lemma distinct_update_loop:
  "distinct (map fst g) \<Longrightarrow> distinct (map fst (fst (snd (update_loop ev snap ms g))))"
proof (induction ms arbitrary: g)
  case Nil
  then show ?case by simp
next
  case (Cons a ms)
  obtain k m where a: "a = (k, m)" by (cases a)
  obtain err m' g' where u: "update_vehicle ev snap m g = (err, m', g')"
    by (cases "update_vehicle ev snap m g")
  have "distinct (map fst g')"
    using distinct_update_vehicle [OF Cons.prems, of ev snap m] u by simp
  from Cons.IH [OF this] show ?case
    by (cases "update_loop ev snap ms g'") (simp add: a u)
qed

lemma grid_evaluator_update:
  "grid (fst (evaluator_update ev snap)) = fst (snd (update_loop ev snap (metrics ev) (grid ev)))"
  by (cases "update_loop ev snap (metrics ev) (grid ev)") (simp add: evaluator_update_def)

lemma step_grid_keys:
  "fst ` set (grid (step ev e)) = fst ` set (grid ev) \<union> set (charged_cells ev [e])"
  by (cases e) (simp_all add: register_vehicle_def grid_evaluator_update keys_update_loop)

lemma step_grid_distinct:
  "distinct (map fst (grid ev)) \<Longrightarrow> distinct (map fst (grid (step ev e)))"
  by (cases e) (simp_all add: register_vehicle_def grid_evaluator_update distinct_update_loop)

lemma charged_cells_Cons:
  "charged_cells ev (e # es) = charged_cells ev [e] @ charged_cells (step ev e) es"
  by (cases e) simp_all

lemma run_grid_keys:
  "fst ` set (grid (run ev es)) = fst ` set (grid ev) \<union> set (charged_cells ev es)"
proof (induction es arbitrary: ev)
  case Nil
  show ?case by simp
next
  case (Cons e es)
  show ?case
    using Cons [of "step ev e"] step_grid_keys [of ev e] charged_cells_Cons [of ev e es]
    by auto
qed

lemma run_grid_distinct:
  "distinct (map fst (grid ev)) \<Longrightarrow> distinct (map fst (grid (run ev es)))"
  by (induction es arbitrary: ev) (simp_all add: step_grid_distinct)

lemmas example_defs =
  cruising_vehicle_def braking_vehicle_def broken_vehicle_def outside_vehicle_def
  demo_snapshot_def stale_snapshot_def demo_metrics_def demo_evaluator_def
  init_metrics_def init_evaluator_def

lemmas physics_defs =
  compute_power_def aerodynamic_force_def rolling_resistance_force_def
  gravity_force_on_slope_def G_def RHO_AIR_def py_truediv_def

lemmas update_defs =
  update_def long_accel_def integrate_power_def eco_counters_def csv_logging_def
  estimate_fuel_co2_def estimate_ev_co2_def compute_eco_score_def np_std_def np_mean_def
  py_round_def writerow_def flush_def Let_def

lemma sqrt_400: "sqrt 400 = 20"
  by (rule real_sqrt_unique) simp_all

lemma speed_of_20: "speed_of \<lparr>vec_x = 20, vec_y = 0, vec_z = 0\<rparr> = 20"
  by (simp add: speed_of_def sqrt_400)





lemma demo_fleet_metrics:
  "metrics demo_fleet =
     [(7, demo_metrics cruising_vehicle)] @ (9, demo_metrics broken_vehicle)
       # [(8, demo_metrics braking_vehicle)]"
  by (simp add: demo_fleet_def demo_evaluator_def init_evaluator_def register_vehicle_def
      demo_metrics_def cruising_vehicle_def broken_vehicle_def braking_vehicle_def)


lemma finalize_loop_results:
  "snd (finalize_loop ms vs) = vs @ map (results \<circ> snd) ms"
  by (induction ms vs rule: finalize_loop.induct) (auto split: prod.splits)

lemma finalize_ok:
  "snd (finalize ev None)
     = Inr \<lparr>vehicles = map (results \<circ> snd) (metrics ev),
            grid_cells = map (\<lambda>((i, j), co2). (i, j, co2)) (grid ev)\<rparr>"
  using finalize_loop_results [of "metrics ev" "[]"]
  by (cases "finalize_loop (metrics ev) []") (simp add: finalize_def)

lemma demo_charged_cells:
  "charged_cells (init_evaluator None 50 None) demo_events
     = [(20, 21), (20, 0), (17, 26), (20, 0)]"
  by (simp add: demo_events_def example_defs physics_defs update_defs speed_of_20
      register_vehicle_def evaluator_update_def update_vehicle_def charged_cell_def
      List.map_filter_simps py_int_def setdefault_def dict_iadd_def)

section \<open>The claims\<close>

subsection \<open>C1\<close>




subsection \<open>C2\<close>

text \<open>
  C2. For a tracker update with positive elapsed time whose velocity and acceleration
  queries succeed and whose computed power is \<open>p\<close>: if \<open>p\<close> is positive the CO2
  accumulator strictly increases, for the combustion and for the electric model alike,
  and the regen accumulator is unchanged; if \<open>p\<close> is not positive the CO2 and the
  energy accumulators are unchanged and regen grows by exactly \<open>0.5 * |p| * dt\<close>.
\<close>

theorem update_power_sign:
  assumes dt: "0 < delta_seconds snap"
    and vel: "get_velocity (vehicle m) = Inr vel"
    and acc: "get_acceleration (vehicle m) = Inr acc"
    and pw: "compute_power m (speed_of vel) (long_accel vel acc) slope = Inr p"
  shows "(0 < p \<longrightarrow>
            co2_g m < co2_g (snd (update m snap ctl slope)) \<and>
            regen_j (snd (update m snap ctl slope)) = regen_j m) \<and>
         (p \<le> 0 \<longrightarrow>
            co2_g (snd (update m snap ctl slope)) = co2_g m \<and>
            energy_j (snd (update m snap ctl slope)) = energy_j m \<and>
            regen_j (snd (update m snap ctl slope))
              = regen_j m + 0.5 * \<bar>p\<bar> * delta_seconds snap)"
proof -
  let ?dt = "delta_seconds snap"
  let ?m1 = "m\<lparr>distance_m := distance_m m + speed_of vel * ?dt\<rparr>"
  have fields:
    "co2_g (snd (update m snap ctl slope)) = co2_g (integrate_power ?m1 p ?dt)"
    "regen_j (snd (update m snap ctl slope)) = regen_j (integrate_power ?m1 p ?dt)"
    "energy_j (snd (update m snap ctl slope)) = energy_j (integrate_power ?m1 p ?dt)"
    using dt vel acc pw by (simp_all add: update_def Let_def)
  show ?thesis
  proof (cases "0 < p")
    case True
    with dt show ?thesis
      using integrate_power_pos [of ?dt p ?m1] by (simp add: fields)
  next
    case False
    then have "p \<le> 0" by simp
    then show ?thesis
      using integrate_power_nonpos [of p ?m1 ?dt] by (simp add: fields)
  qed
qed

text \<open>
  Both branches on the example vehicles: cruising draws 20590/3 W, braking at
  3 m/s squared gives -75440.7 W.
\<close>

theorem update_power_sign_witness:
  "0 < delta_seconds demo_snapshot \<and>
   compute_power (demo_metrics cruising_vehicle) 20 0 0 = Inr (20590 / 3) \<and>
   co2_g (demo_metrics cruising_vehicle)
     < co2_g (snd (update (demo_metrics cruising_vehicle) demo_snapshot None 0)) \<and>
   regen_j (snd (update (demo_metrics cruising_vehicle) demo_snapshot None 0))
     = regen_j (demo_metrics cruising_vehicle) \<and>
   compute_power (demo_metrics braking_vehicle) 20 (- 3) 0 = Inr (- 754407 / 10) \<and>
   co2_g (snd (update (demo_metrics braking_vehicle) demo_snapshot None 0))
     = co2_g (demo_metrics braking_vehicle) \<and>
   energy_j (snd (update (demo_metrics braking_vehicle) demo_snapshot None 0))
     = energy_j (demo_metrics braking_vehicle) \<and>
   regen_j (snd (update (demo_metrics braking_vehicle) demo_snapshot None 0))
     = regen_j (demo_metrics braking_vehicle) + 0.5 * \<bar>- 754407 / 10\<bar> * 1"
proof -
  let ?v = "\<lparr>vec_x = 20, vec_y = 0, vec_z = 0\<rparr>"
  let ?a0 = "\<lparr>vec_x = 0, vec_y = 0, vec_z = 0\<rparr>"
  let ?a3 = "\<lparr>vec_x = - 3, vec_y = 0, vec_z = 0\<rparr>"
  have la0: "long_accel ?v ?a0 = 0" by (simp add: long_accel_def)
  have la3: "long_accel ?v ?a3 = - 3" by (simp add: long_accel_def speed_of_20)
  have p1: "compute_power (demo_metrics cruising_vehicle) 20 0 0 = Inr (20590 / 3)"
    by (simp add: example_defs physics_defs)
  have p2: "compute_power (demo_metrics braking_vehicle) 20 (- 3) 0 = Inr (- 754407 / 10)"
    by (simp add: example_defs physics_defs)
  have dt: "0 < delta_seconds demo_snapshot" by (simp add: demo_snapshot_def)
  have v1: "get_velocity (vehicle (demo_metrics cruising_vehicle)) = Inr ?v"
    and a1: "get_acceleration (vehicle (demo_metrics cruising_vehicle)) = Inr ?a0"
    and v2: "get_velocity (vehicle (demo_metrics braking_vehicle)) = Inr ?v"
    and a2: "get_acceleration (vehicle (demo_metrics braking_vehicle)) = Inr ?a3"
    by (simp_all add: example_defs)
  show ?thesis
    using update_power_sign [of demo_snapshot "demo_metrics cruising_vehicle" ?v ?a0 0
        "20590 / 3" None]
      update_power_sign [of demo_snapshot "demo_metrics braking_vehicle" ?v ?a3 0
        "- 754407 / 10" None]
    by (simp add: dt v1 a1 v2 a2 speed_of_20 la0 la3 p1 p2) (simp add: demo_snapshot_def)
qed

subsection \<open>C3\<close>

text \<open>
  C3. No update decreases the energy, regen, CO2, distance, harsh-acceleration,
  harsh-braking or idle-time accumulator, whether it returns or raises; hence along any
  sequence of updates every later state is at least every earlier one.
\<close>

theorem accumulators_monotone:
  "accum_le m (snd (update m snap ctl slope)) \<and>
   accum_le (run_updates m ticks) (run_updates m (ticks @ later))"
  by (simp add: update_accum_le run_updates_append run_updates_accum_le)

subsection \<open>C4\<close>

text \<open>
  C4. An update whose elapsed time is zero or negative returns without an exception
  and leaves the whole tracker as it was: the accumulators, the jerk history,
  \<open>last_accel\<close>, the time since the last log row, and the rows of the CSV file.
\<close>

theorem update_noop:
  "delta_seconds snap \<le> 0 \<Longrightarrow> update m snap ctl slope = (None, m)"
  by (simp add: update_def)

text \<open>A tick with no elapsed time on the cruising vehicle.\<close>

theorem update_noop_witness:
  "delta_seconds stale_snapshot \<le> 0 \<and>
   update (demo_metrics cruising_vehicle) stale_snapshot None 0
     = (None, demo_metrics cruising_vehicle)"
  using update_noop [of stale_snapshot "demo_metrics cruising_vehicle" None 0]
  by (simp add: stale_snapshot_def)

subsection \<open>C5\<close>

text \<open>
  C5. With non-negative harsh-event counts and idle time, \<open>compute_eco_score\<close> is the
  specification's formula over the population standard deviation of the whole jerk
  history (0 when it is empty) and the distance in kilometres, and it lies in [0, 100].
\<close>

theorem eco_score_formula:
  assumes "0 \<le> harsh_accel m" "0 \<le> harsh_brake m" "0 \<le> idle_time_s m"
  shows "compute_eco_score m =
           spec_eco_score (population_stddev (jerk_samples m)) (of_int (harsh_accel m))
             (of_int (harsh_brake m)) (idle_time_s m) (distance_m m / 1000)
         \<and> 0 \<le> compute_eco_score m \<and> compute_eco_score m \<le> 100"
proof -
  have eq: "(if jerk_samples m \<noteq> [] then np_std (jerk_samples m) else 0)
              = population_stddev (jerk_samples m)"
    by (simp add: np_std_population) (simp add: population_stddev_def)
  have js: "0 \<le> (if jerk_samples m \<noteq> [] then np_std (jerk_samples m) else 0)"
    by (simp add: np_std_nonneg)
  have dk: "0 < max (distance_m m / 1000) (0.1::real)" by simp
  have num: "0 \<le> (if jerk_samples m \<noteq> [] then np_std (jerk_samples m) else 0) * 1.2
                 + of_int (harsh_accel m) * 0.08 + of_int (harsh_brake m) * 0.12
                 + idle_time_s m * 0.01"
    using assms js by (intro add_nonneg_nonneg mult_nonneg_nonneg) simp_all
  have pen: "0 \<le> ((if jerk_samples m \<noteq> [] then np_std (jerk_samples m) else 0) * 1.2
                 + of_int (harsh_accel m) * 0.08 + of_int (harsh_brake m) * 0.12
                 + idle_time_s m * 0.01) / max (distance_m m / 1000) 0.1"
    using num dk by (rule divide_nonneg_pos)
  have 1: "compute_eco_score m =
           spec_eco_score (population_stddev (jerk_samples m)) (of_int (harsh_accel m))
             (of_int (harsh_brake m)) (idle_time_s m) (distance_m m / 1000)"
    unfolding compute_eco_score_def spec_eco_score_def Let_def eq
    by (simp add: algebra_simps)
  have 2: "0 \<le> compute_eco_score m"
    by (simp add: compute_eco_score_def Let_def)
  have 3: "compute_eco_score m \<le> 100"
    using pen unfolding compute_eco_score_def Let_def by simp
  from 1 2 3 show ?thesis by simp
qed

text \<open>
  A tracker with jerk samples 1 and 3, two harsh accelerations, one harsh braking, 30 s
  of idling and 500 m travelled scores 96.44.
\<close>

theorem eco_score_formula_witness:
  "0 \<le> harsh_accel worn_metrics \<and> 0 \<le> harsh_brake worn_metrics \<and>
   0 \<le> idle_time_s worn_metrics \<and>
   population_stddev (jerk_samples worn_metrics) = 1 \<and>
   compute_eco_score worn_metrics = spec_eco_score 1 2 1 30 0.5 \<and>
   compute_eco_score worn_metrics = 96.44"
proof -
  have sd: "population_stddev (jerk_samples worn_metrics) = 1"
    by (simp add: worn_metrics_def population_stddev_def)
  have f: "harsh_accel worn_metrics = 2" "harsh_brake worn_metrics = 1"
    "idle_time_s worn_metrics = 30" "distance_m worn_metrics = 500"
    by (simp_all add: worn_metrics_def)
  show ?thesis
    using eco_score_formula [of worn_metrics]
    by (simp add: sd f) (simp add: spec_eco_score_def)
qed

subsection \<open>C6\<close>

text \<open>
  C6. One tick of one second at 20 m/s with no longitudinal acceleration on a flat road,
  for a combustion vehicle of 1500 kg with Cd 0.3, frontal area 2.2, Crr 0.01 and
  drivetrain efficiency 0.9: the aerodynamic force is 161.7 N, the rolling force
  147.15 N, the power drawn 6177 / 0.9 W, the energy added is within 0.5 J of 6863 J,
  and the CO2 added is within 0.0005 g of both \<open>(6863 / 3.6e6) / 8.9 * 2310\<close> and 0.495.
\<close>

theorem cruise_scenario:
  assumes par: "mass m = 1500" "cd m = 0.3" "area m = 2.2" "crr m = 0.01"
      "drivetrain_eff m = 0.9" "\<not> is_ev m"
    and vel: "get_velocity (vehicle m) = Inr vel" "speed_of vel = 20"
    and acc: "get_acceleration (vehicle m) = Inr acc" "long_accel vel acc = 0"
    and dt: "delta_seconds snap = 1"
  shows "aerodynamic_force (cd m) (area m) 20 = 161.7
         \<and> rolling_resistance_force (crr m) (mass m) = 147.15
         \<and> compute_power m 20 0 0 = Inr (6177 / 0.9)
         \<and> energy_j (snd (update m snap ctl 0)) - energy_j m = 6177 / 0.9
         \<and> \<bar>energy_j (snd (update m snap ctl 0)) - energy_j m - 6863\<bar> < 1 / 2
         \<and> co2_g (snd (update m snap ctl 0)) - co2_g m = 6177 / 0.9 / 3600000 / 8.9 * 2310
         \<and> \<bar>co2_g (snd (update m snap ctl 0)) - co2_g m - 6863 / 3600000 / 8.9 * 2310\<bar>
             < 1 / 2000
         \<and> \<bar>co2_g (snd (update m snap ctl 0)) - co2_g m - 0.495\<bar> < 1 / 2000"
proof -
  let ?m1 = "m\<lparr>distance_m := distance_m m + 20 * 1\<rparr>"
  have aero: "aerodynamic_force (cd m) (area m) 20 = 161.7"
    by (simp add: par aerodynamic_force_def RHO_AIR_def)
  have roll: "rolling_resistance_force (crr m) (mass m) = 147.15"
    by (simp add: par rolling_resistance_force_def G_def)
  have pw: "compute_power m 20 0 0 = Inr (6177 / 0.9)"
    by (simp add: compute_power_def Let_def par aerodynamic_force_def RHO_AIR_def
        rolling_resistance_force_def G_def gravity_force_on_slope_def py_truediv_def)
  have e: "energy_j (snd (update m snap ctl 0)) = energy_j (integrate_power ?m1 (6177 / 0.9) 1)"
    and c: "co2_g (snd (update m snap ctl 0)) = co2_g (integrate_power ?m1 (6177 / 0.9) 1)"
    using pw by (simp_all add: update_def Let_def vel acc dt)
  have e': "energy_j (snd (update m snap ctl 0)) - energy_j m = 6177 / 0.9"
    by (simp add: e integrate_power_def Let_def)
  have c': "co2_g (snd (update m snap ctl 0)) - co2_g m = 6177 / 0.9 / 3600000 / 8.9 * 2310"
    using par(6) by (simp add: c integrate_power_def Let_def estimate_fuel_co2_def)
  show ?thesis
    unfolding e' c' by (simp add: aero roll pw)
qed

text \<open>The scenario on a freshly constructed tracker of the cruising vehicle.\<close>

theorem cruise_scenario_witness:
  "mass (demo_metrics cruising_vehicle) = 1500 \<and> cd (demo_metrics cruising_vehicle) = 0.3 \<and>
   area (demo_metrics cruising_vehicle) = 2.2 \<and> crr (demo_metrics cruising_vehicle) = 0.01 \<and>
   drivetrain_eff (demo_metrics cruising_vehicle) = 0.9 \<and>
   \<not> is_ev (demo_metrics cruising_vehicle) \<and>
   get_velocity (vehicle (demo_metrics cruising_vehicle))
     = Inr \<lparr>vec_x = 20, vec_y = 0, vec_z = 0\<rparr> \<and>
   speed_of \<lparr>vec_x = 20, vec_y = 0, vec_z = 0\<rparr> = 20 \<and>
   get_acceleration (vehicle (demo_metrics cruising_vehicle))
     = Inr \<lparr>vec_x = 0, vec_y = 0, vec_z = 0\<rparr> \<and>
   long_accel \<lparr>vec_x = 20, vec_y = 0, vec_z = 0\<rparr> \<lparr>vec_x = 0, vec_y = 0, vec_z = 0\<rparr> = 0 \<and>
   delta_seconds demo_snapshot = 1 \<and>
   energy_j (snd (update (demo_metrics cruising_vehicle) demo_snapshot None 0)) = 20590 / 3 \<and>
   co2_g (snd (update (demo_metrics cruising_vehicle) demo_snapshot None 0)) = 158543 / 320400"
proof -
  have la0: "long_accel \<lparr>vec_x = 20, vec_y = 0, vec_z = 0\<rparr> \<lparr>vec_x = 0, vec_y = 0, vec_z = 0\<rparr> = 0"
    by (simp add: long_accel_def)
  have f: "energy_j (demo_metrics cruising_vehicle) = 0" "co2_g (demo_metrics cruising_vehicle) = 0"
    by (simp_all add: example_defs)
  show ?thesis
    using cruise_scenario [of "demo_metrics cruising_vehicle" "\<lparr>vec_x = 20, vec_y = 0, vec_z = 0\<rparr>"
        "\<lparr>vec_x = 0, vec_y = 0, vec_z = 0\<rparr>" demo_snapshot None]
    by (simp add: speed_of_20 la0 f) (simp add: example_defs)
qed

subsection \<open>C7\<close>



subsection \<open>C8\<close>

text \<open>
  C8. After \<open>finalize\<close> the CSV file of every registered tracker is closed, whatever
  closing a file raised and whether or not the summary was written, and the same
  vehicles are registered; \<open>finalize\<close> raises exactly when writing the summary does,
  with that exception. (\<open>results\<close> is arithmetic on the tracker's fields and cannot raise.)
\<close>

theorem finalize_closes_all:
  "list_all (\<lambda>(k, m). closed (csv_file m)) (metrics (fst (finalize ev fault)))
   \<and> map fst (metrics (fst (finalize ev fault))) = map fst (metrics ev)
   \<and> (snd (finalize ev fault) = Inl e) = (fault = Some e)"
  using finalize_loop_closed [of "metrics ev" "[]"] finalize_loop_keys [of "metrics ev" "[]"]
  by (auto simp: finalize_def Let_def split: prod.splits option.splits)

text \<open>
  A fleet whose three files are open on a failing device, and a summary that cannot be
  written: all three files end up closed and the caller sees the write error.
\<close>

theorem finalize_closes_all_witness:
  "list_all (\<lambda>(k, m). faulty (csv_file m) \<and> \<not> closed (csv_file m)) (metrics faulty_fleet) \<and>
   list_all (\<lambda>(k, m). closed (csv_file m)) (metrics (fst (finalize faulty_fleet (Some OSError)))) \<and>
   map fst (metrics (fst (finalize faulty_fleet (Some OSError)))) = [7, 9, 8] \<and>
   snd (finalize faulty_fleet (Some OSError)) = Inl OSError \<and>
   snd (finalize faulty_fleet None) \<noteq> Inl OSError"
proof -
  have m: "map fst (metrics faulty_fleet) = [7, 9, 8]"
    by (simp add: faulty_fleet_def demo_fleet_metrics)
  have f: "list_all (\<lambda>(k, m). faulty (csv_file m) \<and> \<not> closed (csv_file m)) (metrics faulty_fleet)"
    by (simp add: faulty_fleet_def demo_fleet_metrics demo_metrics_def init_metrics_def)
  show ?thesis
    using finalize_closes_all [of faulty_fleet "Some OSError" OSError]
      finalize_closes_all [of faulty_fleet None OSError]
    by (simp add: m f)
qed

subsection \<open>C9\<close>

text \<open>
  C9. For an evaluator run from its construction through any sequence of registrations,
  simulator changes and ticks, the grid list of the summary has one entry for each cell
  charged by a per-vehicle update that did not raise, no entry for any other cell, and
  no cell twice.
\<close>

theorem summary_grid_cells:
  assumes "snd (finalize (run (init_evaluator mb cs cfg) es) None) = Inr s"
  shows "set (map (\<lambda>(i, j, co2). (i, j)) (grid_cells s))
           = set (charged_cells (init_evaluator mb cs cfg) es)
         \<and> distinct (map (\<lambda>(i, j, co2). (i, j)) (grid_cells s))"
proof -
  let ?ev = "run (init_evaluator mb cs cfg) es"
  have cells: "map (\<lambda>(i, j, co2). (i, j)) (grid_cells s) = map fst (grid ?ev)"
    using assms by (auto simp: finalize_def Let_def split: prod.splits)
  have keys: "fst ` set (grid ?ev) = set (charged_cells (init_evaluator mb cs cfg) es)"
    using run_grid_keys [of "init_evaluator mb cs cfg" es] by (simp add: init_evaluator_def)
  have dist: "distinct (map fst (grid ?ev))"
    by (rule run_grid_distinct) (simp add: init_evaluator_def)
  from keys dist show ?thesis
    unfolding cells by simp
qed

text \<open>
  Three vehicles and two ticks: the broken vehicle never charges a cell, the vehicle
  south of the map charges (20, 0) twice, and the summary lists three cells.
\<close>

theorem summary_grid_cells_witness:
  "snd (finalize (run (init_evaluator None 50 None) demo_events) None)
     = Inr \<lparr>vehicles = map (results \<circ> snd) (metrics (run (init_evaluator None 50 None) demo_events)),
            grid_cells = map (\<lambda>((i, j), co2). (i, j, co2))
                           (grid (run (init_evaluator None 50 None) demo_events))\<rparr> \<and>
   charged_cells (init_evaluator None 50 None) demo_events
     = [(20, 21), (20, 0), (17, 26), (20, 0)] \<and>
   set (map fst (grid (run (init_evaluator None 50 None) demo_events)))
     = {(20, 21), (20, 0), (17, 26)} \<and>
   distinct (map fst (grid (run (init_evaluator None 50 None) demo_events)))"
  using summary_grid_cells [OF finalize_ok, of None 50 None demo_events]
  by (simp add: finalize_ok demo_charged_cells comp_def case_prod_unfold) auto

subsection \<open>C10\<close>


end
